theory Spec2Isabelle
  imports Main "HOL-Library.AList" "HOL-Library.Multiset"
begin

section \<open>The task list service of datastore/tasks/tasks.go\<close>

text \<open>
  The program is one HTTP handler that dispatches on the request method to three
  operations on a remote document store: \<open>ListTasks\<close>, \<open>AddTask\<close> and \<open>MarkDone\<close>
  (a fourth, \<open>DeleteTask\<close>, is defined and not wired). The operations and the handler are
  translated from tasks.go. The store client (package cloud.google.com/go/datastore),
  \<open>strconv.ParseInt\<close>, \<open>io.CopyN\<close> and the \<open>http.ResponseWriter\<close> are libraries the file
  imports; they are modelled below, each under a comment that says so.
\<close>

subsection \<open>Data\<close>

text \<open>
  A Go \<open>int64\<close> is an \<open>int\<close>: the program does no arithmetic on identifiers, and the one
  place where the 64-bit range matters, \<open>ParseInt\<close>, checks it explicitly. A \<open>time.Time\<close> is
  an integer instant.
\<close>

type_synonym int64 = int
type_synonym time = int

text \<open>The struct \<open>Task\<close> (tasks.go, lines 146-151); its field \<open>Id\<close> is \<open>Id_field\<close> here.\<close>

record Task =
  Desc :: string
  Created :: time
  Done :: bool
  Id_field :: int64

text \<open>
  Modelled from the spec: \<open>datastore.Key\<close> of the client library, "store-assigned identifier
  for an entity, here an integer". The program builds keys of kind "Task" with no parent and no
  name; a key whose \<open>ID\<close> is 0 is incomplete.
\<close>

record Key =
  Kind :: string
  ID :: int64

definition IncompleteKey :: "string \<Rightarrow> Key" where
  "IncompleteKey kind = \<lparr>Kind = kind, ID = 0\<rparr>"

definition IDKey :: "string \<Rightarrow> int64 \<Rightarrow> Key" where
  "IDKey kind n = \<lparr>Kind = kind, ID = n\<rparr>"

text \<open>
  Go's \<open>error\<close> values that the program can meet: the store's lookup failure, the client's
  refusal of an incomplete key, its refusal of a text property that is too long to index or is
  not valid UTF-8, any other failure of a call to the store (with its message),
  \<open>io.EOF\<close>, any other failure of reading the request body, the two \<open>strconv.NumError\<close>s of
  \<open>ParseInt\<close> (with the text that was parsed), and the run-time panic of an index out of range.
\<close>

datatype error =
    ErrNoSuchEntity
  | ErrIncompleteKey Key
  | ErrStringTooLong
  | ErrInvalidUTF8 string
  | StoreError string
  | EOF
  | ReadError string
  | ErrSyntax string
  | ErrRange string
  | PanicIndexOutOfRange

subsection \<open>The store client\<close>

text \<open>
  Modelled from the spec: the store client, "handle used to issue reads/writes/queries/
  transactions against the remote document datastore". Its state is the entities of kind "Task",
  each under the integer identifier of its key (an association list read with \<open>map_of\<close> and
  written with \<open>AList.update\<close>). Three more fields stand for what the remote side decides and
  for what the program did:
  \<^item> \<open>allocator\<close>: the identifier the store assigns to a new entity, given the identifiers
    in use ("an integer identifier assigned by the store at creation time");
  \<^item> \<open>fault\<close>: the error, if any, with which the store answers a call;
  \<^item> \<open>calls\<close>: every call the program has issued to the client, in order.
\<close>

datatype call =
    CallPut Key Task
  | CallGetAll
  | CallDelete Key
  | CallBegin
  | CallTxGet Key
  | CallTxPut Key Task
  | CallCommit
  | CallRollback

record Client =
  entities :: "(int64 \<times> Task) list"
  allocator :: "int64 list \<Rightarrow> int64"
  fault :: "call \<Rightarrow> error option"
  calls :: "call list"

definition issue :: "call \<Rightarrow> Client \<Rightarrow> Client" where
  "issue c cl = cl\<lparr>calls := calls cl @ [c]\<rparr>"

text \<open>
  Modelled from the spec: the identifier of a new entity, "an integer identifier assigned by the
  store at creation time", "unique" and "non-zero". The remote side proposes it (\<open>allocator\<close>);
  the store takes the proposal when it is not 0 and not in use, and otherwise the identifier
  after the greatest in use, so that what it assigns is never 0 and never in use.
\<close>

definition next_free :: "int64 list \<Rightarrow> int64" where
  "next_free ks = 1 + fold max ks 0"

definition allocateID :: "Client \<Rightarrow> int64" where
  "allocateID cl =
     (let ks = map fst (entities cl); n = allocator cl ks
      in if n \<noteq> 0 \<and> n \<notin> set ks then n else next_free ks)"

text \<open>
  The text that the client library accepts as the value of an indexed property, as the field
  \<open>Desc\<close> is: at most 1500 bytes, and valid UTF-8 as \<open>utf8.ValidString\<close> decides it. A first
  byte below 128 stands alone; one in C2..DF takes one more byte, one in E0..EF two, one in
  F0..F4 three; the bytes that follow are in 80..BF, the second one more narrowly after E0
  (A0..BF), ED (80..9F), F0 (90..BF) and F4 (80..8F); every other first byte is refused.
\<close>

definition continuation :: "nat \<Rightarrow> bool" where
  "continuation b \<longleftrightarrow> 128 \<le> b \<and> b \<le> 191"

definition second_byte :: "nat \<Rightarrow> nat \<Rightarrow> bool" where
  "second_byte a b \<longleftrightarrow>
     (if a = 224 then 160 \<le> b \<and> b \<le> 191
      else if a = 237 then 128 \<le> b \<and> b \<le> 159
      else if a = 240 then 144 \<le> b \<and> b \<le> 191
      else if a = 244 then 128 \<le> b \<and> b \<le> 143
      else continuation b)"

fun valid_bytes :: "nat list \<Rightarrow> bool" where
  "valid_bytes [] = True"
| "valid_bytes (a # bs) =
     (if a < 128 then valid_bytes bs
      else if 194 \<le> a \<and> a \<le> 223 then
        (case bs of
           b # r \<Rightarrow> second_byte a b \<and> valid_bytes r
         | _ \<Rightarrow> False)
      else if 224 \<le> a \<and> a \<le> 239 then
        (case bs of
           b # c # r \<Rightarrow> second_byte a b \<and> continuation c \<and> valid_bytes r
         | _ \<Rightarrow> False)
      else if 240 \<le> a \<and> a \<le> 244 then
        (case bs of
           b # c # d # r \<Rightarrow>
             second_byte a b \<and> continuation c \<and> continuation d \<and> valid_bytes r
         | _ \<Rightarrow> False)
      else False)"

definition ValidString :: "string \<Rightarrow> bool" where
  "ValidString s = valid_bytes (map of_char s)"

definition storable :: "string \<Rightarrow> bool" where
  "storable s \<longleftrightarrow> length s \<le> 1500 \<and> ValidString s"

text \<open>
  Modelled from the spec: \<open>client.Put\<close>, "one write to the store with an auto-assigned
  identifier": an incomplete key is completed with the identifier the store allocates, and the
  entity is stored under the key (replacing what was there). The spec says nothing of what the
  client library does before it sends the entity: it encodes the properties, and refuses a
  description that is longer than 1500 bytes or is not valid UTF-8; then nothing is sent and
  nothing is stored.
\<close>

definition Client_Put :: "Client \<Rightarrow> Key \<Rightarrow> Task \<Rightarrow> (error + Key) \<times> Client" where
  "Client_Put cl k src =
     (let cl1 = issue (CallPut k src) cl in
      if length (Desc src) > 1500 then (Inl ErrStringTooLong, cl1)
      else if \<not> ValidString (Desc src) then (Inl (ErrInvalidUTF8 (Desc src)), cl1)
      else case fault cl (CallPut k src) of
        Some e \<Rightarrow> (Inl e, cl1)
      | None \<Rightarrow>
          (let k' = (if ID k = 0 then k\<lparr>ID := allocateID cl\<rparr> else k)
           in (Inr k', cl1\<lparr>entities := AList.update (ID k') src (entities cl1)\<rparr>)))"

text \<open>
  Modelled from the spec: \<open>client.GetAll\<close> on the query \<open>NewQuery("Task").Order("created")\<close>,
  "one fixed ascending-order scan": all entities, ascending by creation time (entities of equal
  creation time in the order of their keys), as a list of keys and a list of tasks of the same
  length.
\<close>

definition query_created :: "(int64 \<times> Task) list \<Rightarrow> (int64 \<times> Task) list" where
  "query_created es = sort_key (\<lambda>(k, t). Created t) (sort_key fst es)"

definition Client_GetAll :: "Client \<Rightarrow> (error + Key list \<times> Task list) \<times> Client" where
  "Client_GetAll cl =
     (let cl1 = issue CallGetAll cl in
      case fault cl CallGetAll of
        Some e \<Rightarrow> (Inl e, cl1)
      | None \<Rightarrow>
          (let rows = query_created (entities cl)
           in (Inr (map (\<lambda>(k, t). IDKey ''Task'' k) rows, map snd rows), cl1)))"

text \<open>
  Modelled from the spec: \<open>client.Delete\<close>, "deletes by identifier unconditionally"; the client
  refuses an incomplete key.
\<close>

definition Client_Delete :: "Client \<Rightarrow> Key \<Rightarrow> (error + unit) \<times> Client" where
  "Client_Delete cl k =
     (let cl1 = issue (CallDelete k) cl in
      if ID k = 0 then (Inl (ErrIncompleteKey k), cl1)
      else case fault cl (CallDelete k) of
        Some e \<Rightarrow> (Inl e, cl1)
      | None \<Rightarrow> (Inr (), cl1\<lparr>entities := AList.delete (ID k) (entities cl1)\<rparr>))"

text \<open>
  Modelled from the spec: the transaction, "atomic read-modify-write unit provided by the
  store". A transaction reads the entities as they were when it began and buffers its writes;
  \<open>RunInTransaction\<close> begins one, runs the function, and commits the buffered writes if the
  function returned no error, and rolls back (the entities stay as they were) if it did. "Missing
  entity yields a lookup failure": \<open>tx.Get\<close> of an absent key is \<open>ErrNoSuchEntity\<close>. Requests are
  modelled one at a time, so a commit never meets a concurrent transaction and is not retried.
  \<open>tx.Put\<close> writes back a record that was read from the store, whose description the store
  accepted when the record was created.
\<close>

record Transaction =
  txClient :: Client
  mutations :: "(Key \<times> Task) list"

definition Tx_Get :: "Transaction \<Rightarrow> Key \<Rightarrow> (error + Task) \<times> Transaction" where
  "Tx_Get tx k =
     (let tx1 = tx\<lparr>txClient := issue (CallTxGet k) (txClient tx)\<rparr> in
      if ID k = 0 then (Inl (ErrIncompleteKey k), tx1)
      else case fault (txClient tx) (CallTxGet k) of
        Some e \<Rightarrow> (Inl e, tx1)
      | None \<Rightarrow>
          (case map_of (entities (txClient tx)) (ID k) of
             None \<Rightarrow> (Inl ErrNoSuchEntity, tx1)
           | Some t \<Rightarrow> (Inr t, tx1)))"

definition Tx_Put :: "Transaction \<Rightarrow> Key \<Rightarrow> Task \<Rightarrow> (error + unit) \<times> Transaction" where
  "Tx_Put tx k src =
     (let tx1 = tx\<lparr>txClient := issue (CallTxPut k src) (txClient tx)\<rparr> in
      case fault (txClient tx) (CallTxPut k src) of
        Some e \<Rightarrow> (Inl e, tx1)
      | None \<Rightarrow> (Inr (), tx1\<lparr>mutations := mutations tx1 @ [(k, src)]\<rparr>))"

definition apply_mutations :: "(Key \<times> Task) list \<Rightarrow> (int64 \<times> Task) list \<Rightarrow> (int64 \<times> Task) list" where
  "apply_mutations ms es = fold (\<lambda>(k, t). AList.update (ID k) t) ms es"

definition RunInTransaction ::
  "Client \<Rightarrow> (Transaction \<Rightarrow> (error + unit) \<times> Transaction) \<Rightarrow> (error + unit) \<times> Client" where
  "RunInTransaction cl f =
     (let cl1 = issue CallBegin cl in
      case fault cl CallBegin of
        Some e \<Rightarrow> (Inl e, cl1)
      | None \<Rightarrow>
          (case f \<lparr>txClient = cl1, mutations = []\<rparr> of
             (Inl e, tx) \<Rightarrow> (Inl e, issue CallRollback (txClient tx))
           | (Inr u, tx) \<Rightarrow>
               (let cl2 = issue CallCommit (txClient tx) in
                case fault cl CallCommit of
                  Some e \<Rightarrow> (Inl e, cl2)
                | None \<Rightarrow>
                    (Inr (), cl2\<lparr>entities := apply_mutations (mutations tx) (entities cl2)\<rparr>))))"

subsection \<open>The operations of tasks.go\<close>

text \<open>
  What the process takes from its surroundings while it serves a request: the reading of the
  clock (\<open>time.Now()\<close>), the text of an error (its \<open>Error()\<close> method, used by the verb \<open>%s\<close>), and
  the JSON encoding of a list of tasks (\<open>json.NewEncoder(w).Encode\<close>).
\<close>

record Runtime =
  clock :: time
  errorString :: "error \<Rightarrow> string"
  jsonEncode :: "Task list \<Rightarrow> string"

text \<open>\<open>AddTask\<close> (lines 155-162): the struct literal leaves \<open>Done\<close> and \<open>Id\<close> at their zero values.\<close>

definition AddTask :: "Runtime \<Rightarrow> Client \<Rightarrow> string \<Rightarrow> (error + Key) \<times> Client" where
  "AddTask rt client desc =
     (let task = \<lparr>Desc = desc, Created = clock rt, Done = False, Id_field = 0\<rparr>;
          key = IncompleteKey ''Task''
      in Client_Put client key task)"

text \<open>\<open>MarkDone\<close> (lines 168-183).\<close>

definition MarkDone :: "Client \<Rightarrow> int64 \<Rightarrow> (error + unit) \<times> Client" where
  "MarkDone client taskID =
     (let key = IDKey ''Task'' taskID
      in RunInTransaction client (\<lambda>tx.
           case Tx_Get tx key of
             (Inl err, tx1) \<Rightarrow> (Inl err, tx1)
           | (Inr task, tx1) \<Rightarrow> Tx_Put tx1 key (task\<lparr>Done := True\<rparr>)))"

text \<open>
  \<open>ListTasks\<close> (lines 189-205). The loop \<open>for i, key := range keys { tasks[i].Id = key.ID }\<close> is
  \<open>set_ids\<close>, counting \<open>i\<close> up; indexing \<open>tasks\<close> out of range panics in Go.
\<close>

fun set_ids :: "nat \<Rightarrow> Key list \<Rightarrow> Task list \<Rightarrow> error + Task list" where
  "set_ids i [] tasks = Inr tasks"
| "set_ids i (key # keys) tasks =
     (if i < length tasks
      then set_ids (Suc i) keys (tasks[i := (tasks ! i)\<lparr>Id_field := ID key\<rparr>])
      else Inl PanicIndexOutOfRange)"

definition ListTasks :: "Client \<Rightarrow> (error + Task list) \<times> Client" where
  "ListTasks client =
     (case Client_GetAll client of
        (Inl err, c1) \<Rightarrow> (Inl err, c1)
      | (Inr (keys, tasks), c1) \<Rightarrow> (set_ids 0 keys tasks, c1))"

text \<open>\<open>DeleteTask\<close> (lines 211-213).\<close>

definition DeleteTask :: "Client \<Rightarrow> int64 \<Rightarrow> (error + unit) \<times> Client" where
  "DeleteTask client taskID = Client_Delete client (IDKey ''Task'' taskID)"

subsection \<open>Reading the request body\<close>

text \<open>
  An \<open>io.Reader\<close> is the bytes it will deliver and how it ends: with \<open>io.EOF\<close> (\<open>failure = None\<close>)
  or with another error. \<open>io.CopyN dst src n\<close> copies \<open>n\<close> bytes and returns no error if it got
  them; if the reader ends first it returns what it copied and the reader's error, \<open>io.EOF\<close> at a
  regular end.
\<close>

record Reader =
  content :: string
  failure :: "error option"

definition CopyN :: "Reader \<Rightarrow> nat \<Rightarrow> string \<times> error option" where
  "CopyN r n =
     (if n \<le> length (content r) then (take n (content r), None)
      else (content r, Some (case failure r of None \<Rightarrow> EOF | Some e \<Rightarrow> e)))"

text \<open>\<open>readMsg\<close> (lines 215-222).\<close>

definition readMsg :: "Reader \<Rightarrow> error + string" where
  "readMsg r =
     (case CopyN r 256 of
        (buf, Some err) \<Rightarrow> (if err \<noteq> EOF then Inl err else Inr buf)
      | (buf, None) \<Rightarrow> Inr buf)"

subsection \<open>Parsing and printing integers\<close>

text \<open>
  \<open>strconv.ParseInt(s, 10, 64)\<close>: an optional sign, then \<open>ParseUint\<close> on the rest, which reads
  decimal digits from the left into a \<open>uint64\<close> and stops with a range error as soon as the
  value leaves the type, with a syntax error at a byte that is not a digit or on the empty text;
  then the magnitude is checked against \<open>1 << 63\<close>. Either error names the whole text \<open>s0\<close>
  that \<open>ParseInt\<close> was given.
\<close>

definition digit_value :: "char \<Rightarrow> nat option" where
  "digit_value c =
     (let n = (of_char c :: nat) in if 48 \<le> n \<and> n \<le> 57 then Some (n - 48) else None)"

fun parse_digits :: "string \<Rightarrow> nat \<Rightarrow> string \<Rightarrow> error + nat" where
  "parse_digits s0 n [] = Inr n"
| "parse_digits s0 n (c # cs) =
     (case digit_value c of
        None \<Rightarrow> Inl (ErrSyntax s0)
      | Some d \<Rightarrow>
          (if n \<ge> (2 ^ 64 - 1) div 10 + 1 then Inl (ErrRange s0)
           else if n * 10 + d > 2 ^ 64 - 1 then Inl (ErrRange s0)
           else parse_digits s0 (n * 10 + d) cs))"

definition ParseUint :: "string \<Rightarrow> string \<Rightarrow> error + nat" where
  "ParseUint s0 s = (if s = [] then Inl (ErrSyntax s0) else parse_digits s0 0 s)"

definition ParseInt :: "string \<Rightarrow> error + int64" where
  "ParseInt s =
     (if s = [] then Inl (ErrSyntax s)
      else
        (let neg = (hd s = CHR ''-'');
             s1 = (if hd s = CHR ''+'' \<or> hd s = CHR ''-'' then tl s else s)
         in case ParseUint s s1 of
              Inl e \<Rightarrow> Inl e
            | Inr un \<Rightarrow>
                (if \<not> neg \<and> un \<ge> 2 ^ 63 then Inl (ErrRange s)
                 else if neg \<and> un > 2 ^ 63 then Inl (ErrRange s)
                 else Inr (if neg then - int un else int un))))"

text \<open>The verb \<open>%d\<close> of \<open>fmt\<close> on an \<open>int64\<close>: decimal digits, with a minus sign if negative.\<close>

fun show_nat :: "nat \<Rightarrow> string" where
  "show_nat n =
     (if n < 10 then [''0123456789'' ! n]
      else show_nat (n div 10) @ [''0123456789'' ! (n mod 10)])"

declare show_nat.simps [simp del]

definition show_int :: "int \<Rightarrow> string" where
  "show_int i = (if i < 0 then CHR ''-'' # show_nat (nat (- i)) else show_nat (nat i))"

subsection \<open>The HTTP handler\<close>

text \<open>
  An \<open>http.ResponseWriter\<close>: the status is fixed by the first \<open>WriteHeader\<close>, or as 200 by the
  first write of body bytes if no header was written before; a response that was never written
  to is sent with status 200.
\<close>

record ResponseWriter =
  status :: "nat option"
  body :: string

definition new_response :: ResponseWriter where
  "new_response = \<lparr>status = None, body = []\<rparr>"

definition WriteHeader :: "ResponseWriter \<Rightarrow> nat \<Rightarrow> ResponseWriter" where
  "WriteHeader w code = (case status w of None \<Rightarrow> w\<lparr>status := Some code\<rparr> | Some c \<Rightarrow> w)"

definition Fprintf :: "ResponseWriter \<Rightarrow> string \<Rightarrow> ResponseWriter" where
  "Fprintf w text = (WriteHeader w 200)\<lparr>body := body w @ text\<rparr>"

definition statusCode :: "ResponseWriter \<Rightarrow> nat" where
  "statusCode w = (case status w of None \<Rightarrow> 200 | Some c \<Rightarrow> c)"

record Request =
  Method :: string
  Body :: Reader

text \<open>What one request leaves behind: the response, the lines logged, the client.\<close>

record Served =
  response :: ResponseWriter
  logged :: "string list"
  client_after :: Client

definition fail_with :: "Runtime \<Rightarrow> nat \<Rightarrow> string \<Rightarrow> error \<Rightarrow> ResponseWriter" where
  "fail_with rt code msg err = Fprintf (WriteHeader new_response code) (msg @ errorString rt err)"

text \<open>
  The handler function of \<open>main\<close> (lines 56-112), one branch of the \<open>switch\<close> per \<open>if\<close>. A panic
  of \<open>ListTasks\<close> would end the request with no response written by the handler.
\<close>

definition handler :: "Runtime \<Rightarrow> Client \<Rightarrow> Request \<Rightarrow> Served" where
  "handler rt client r =
     (if Method r = ''GET'' then
        (case ListTasks client of
           (Inl err, c1) \<Rightarrow>
             (if err = PanicIndexOutOfRange
              then \<lparr>response = new_response, logged = [], client_after = c1\<rparr>
              else \<lparr>response = fail_with rt 500 ''failed to read from datastore: '' err,
                    logged = [''failed to read from datastore: '' @ errorString rt err],
                    client_after = c1\<rparr>)
         | (Inr tasks, c1) \<Rightarrow>
             \<lparr>response = Fprintf new_response (jsonEncode rt tasks), logged = [],
              client_after = c1\<rparr>)
      else if Method r = ''POST'' then
        (case readMsg (Body r) of
           Inl err \<Rightarrow>
             \<lparr>response = fail_with rt 500 ''failed to read message: '' err,
              logged = [''failed to read message: '' @ errorString rt err],
              client_after = client\<rparr>
         | Inr data \<Rightarrow>
             (case AddTask rt client data of
                (Inl err, c1) \<Rightarrow>
                  \<lparr>response = fail_with rt 500 ''failed to create task: '' err,
                   logged = [''failed to create task: '' @ errorString rt err],
                   client_after = c1\<rparr>
              | (Inr key, c1) \<Rightarrow>
                  \<lparr>response = Fprintf new_response
                     (''created new task with ID '' @ show_int (ID key) @ [CHR 0x0A]),
                   logged = [], client_after = c1\<rparr>))
      else if Method r = ''DELETE'' then
        (case readMsg (Body r) of
           Inl err \<Rightarrow>
             \<lparr>response = fail_with rt 500 ''failed to read message: '' err,
              logged = [''failed to read message: '' @ errorString rt err],
              client_after = client\<rparr>
         | Inr idStr \<Rightarrow>
             (case ParseInt idStr of
                Inl err \<Rightarrow>
                  \<lparr>response = fail_with rt 400 ''failed to parse ID (must be int64): '' err,
                   logged = [], client_after = client\<rparr>
              | Inr id64 \<Rightarrow>
                  (case MarkDone client id64 of
                     (Inl err, c1) \<Rightarrow>
                       \<lparr>response = Fprintf (fail_with rt 500 ''failed to mark task done: '' err)
                          (''task '' @ show_int id64 @ '' marked done'' @ [CHR 0x0A]),
                        logged = [''failed to mark task done: '' @ errorString rt err],
                        client_after = c1\<rparr>
                   | (Inr u, c1) \<Rightarrow>
                       \<lparr>response = Fprintf new_response
                          (''task '' @ show_int id64 @ '' marked done'' @ [CHR 0x0A]),
                        logged = [], client_after = c1\<rparr>)))
      else \<lparr>response = WriteHeader new_response 405, logged = [], client_after = client\<rparr>)"

subsection \<open>Stores the program can produce\<close>

text \<open>
  The stores that the four operations produce from an empty one. Between two operations the
  remote side may change how it allocates and how it fails. The store assigns identifiers
  other than 0 (a key with identifier 0 is incomplete).
\<close>

inductive reachable :: "Client \<Rightarrow> bool" where
  start: "entities c = [] \<Longrightarrow> calls c = [] \<Longrightarrow> reachable c"
| remote: "reachable c \<Longrightarrow> reachable (c\<lparr>allocator := a, fault := f\<rparr>)"
| add: "reachable c \<Longrightarrow> allocateID c \<noteq> 0 \<Longrightarrow> AddTask rt c desc = (res, c') \<Longrightarrow> reachable c'"
| mark: "reachable c \<Longrightarrow> MarkDone c n = (res', c') \<Longrightarrow> reachable c'"
| list: "reachable c \<Longrightarrow> ListTasks c = (res'', c') \<Longrightarrow> reachable c'"
| delete: "reachable c \<Longrightarrow> DeleteTask c n = (res', c') \<Longrightarrow> reachable c'"

text \<open>The task that a call writes to the store, if it writes one.\<close>

fun written :: "call \<Rightarrow> Task option" where
  "written (CallPut k t) = Some t"
| "written (CallTxPut k t) = Some t"
| "written c = None"

text \<open>
  No identifier in the stored records: every entity in the store, and every task that a call
  has written, has 0 in its field \<open>Id\<close>, and no entity is under the identifier 0.
\<close>

definition no_stored_id :: "Client \<Rightarrow> bool" where
  "no_stored_id c \<longleftrightarrow>
     (\<forall>(k, t) \<in> set (entities c). Id_field t = 0 \<and> k \<noteq> 0) \<and>
     (\<forall>x \<in> set (calls c). \<forall>t. written x = Some t \<longrightarrow> Id_field t = 0)"

text \<open>The store answers every call: no call fails on the remote side.\<close>

definition healthy :: "Client \<Rightarrow> bool" where
  "healthy c \<longleftrightarrow> (\<forall>x. fault c x = None)"

text \<open>The task as a reader sees it: the stored record with its key's identifier in \<open>Id\<close>.\<close>

definition with_id :: "int64 \<times> Task \<Rightarrow> Task" where
  "with_id = (\<lambda>(k, t). t\<lparr>Id_field := k\<rparr>)"

subsection \<open>Concrete inputs\<close>

definition empty_store :: Client where
  "empty_store = \<lparr>entities = [], allocator = next_free, fault = (\<lambda>x. None), calls = []\<rparr>"

definition go_runtime :: Runtime where
  "go_runtime =
     \<lparr>clock = 1546300800,
      errorString = (\<lambda>e. if e = ErrNoSuchEntity then ''datastore: no such entity'' else ''error''),
      jsonEncode = (\<lambda>ts. ''[]'')\<rparr>"

definition request :: "string \<Rightarrow> string \<Rightarrow> Request" where
  "request m b = \<lparr>Method = m, Body = \<lparr>content = b, failure = None\<rparr>\<rparr>"

definition sample_store :: Client where
  "sample_store = empty_store
     \<lparr>entities :=
        [(3, \<lparr>Desc = ''call bank'', Created = 50, Done = False, Id_field = 0\<rparr>),
         (1, \<lparr>Desc = ''buy milk'', Created = 20, Done = True, Id_field = 0\<rparr>),
         (2, \<lparr>Desc = ''pay rent'', Created = 50, Done = False, Id_field = 0\<rparr>)]\<rparr>"

section \<open>Properties\<close>

subsection \<open>Facts about the association list and the query\<close>

lemma update_mem: "(k, v) \<in> set (AList.update k v al)"
  by (induction al) auto

lemma update_set: "p \<in> set (AList.update k v al) \<Longrightarrow> p = (k, v) \<or> p \<in> set al"
  by (induction al) (auto split: if_splits)

lemma delete_set: "p \<in> set (AList.delete k al) \<Longrightarrow> p \<in> set al"
  by (simp add: AList.delete_eq)

lemma mset_query_created: "mset (query_created es) = mset es"
  by (simp add: query_created_def)

lemma sorted_query_created: "sorted (map (\<lambda>(k, t). Created t) (query_created es))"
  by (simp add: query_created_def sorted_sort_key)

lemma Created_with_id: "Created (with_id p) = (case p of (k, t) \<Rightarrow> Created t)"
  by (simp add: with_id_def split: prod.split)

subsection \<open>What each operation returns\<close>

lemma readMsg_complete:
  "failure r = None \<or> 256 \<le> length (content r) \<Longrightarrow> readMsg r = Inr (take 256 (content r))"
  by (auto simp: readMsg_def CopyN_def)

lemma fold_max_bounds:
  "(a::int) \<le> fold max ks a \<and> (\<forall>k \<in> set ks. k \<le> fold max ks a)"
proof (induction ks arbitrary: a)
  case Nil
  show ?case by simp
next
  case (Cons x xs)
  have "max x a \<le> fold max xs (max x a)" and "\<forall>k \<in> set xs. k \<le> fold max xs (max x a)"
    using Cons.IH[of "max x a"] by simp_all
  then show ?case by auto
qed

lemma next_free_positive: "0 < next_free ks"
  using fold_max_bounds[of 0 ks] by (simp add: next_free_def)

lemma next_free_unused: "next_free ks \<notin> set ks"
  using fold_max_bounds[of 0 ks] by (force simp: next_free_def)

lemma allocateID_nonzero: "allocateID c \<noteq> 0"
  using next_free_positive[of "map fst (entities c)"] by (auto simp: allocateID_def Let_def)

lemma allocateID_unused: "allocateID c \<notin> fst ` set (entities c)"
  using next_free_unused[of "map fst (entities c)"] by (auto simp: allocateID_def Let_def)

lemma AddTask_calls:
  "calls (snd (AddTask rt c d)) =
     calls c @ [CallPut (IncompleteKey ''Task'')
                  \<lparr>Desc = d, Created = clock rt, Done = False, Id_field = 0\<rparr>]"
  by (simp add: AddTask_def Client_Put_def issue_def Let_def split: option.split)

lemma AddTask_refused:
  "\<not> storable d \<Longrightarrow> \<exists>e. AddTask rt c d = (Inl e, c\<lparr>calls := calls (snd (AddTask rt c d))\<rparr>)"
  by (auto simp: AddTask_def Client_Put_def issue_def Let_def storable_def)

lemma AddTask_ok:
  "storable d \<Longrightarrow>
   fault c (CallPut (IncompleteKey ''Task'')
       \<lparr>Desc = d, Created = clock rt, Done = False, Id_field = 0\<rparr>) = None \<Longrightarrow>
   AddTask rt c d =
     (Inr (IDKey ''Task'' (allocateID c)),
      c\<lparr>calls := calls c @ [CallPut (IncompleteKey ''Task'')
                   \<lparr>Desc = d, Created = clock rt, Done = False, Id_field = 0\<rparr>],
        entities := AList.update (allocateID c)
                   \<lparr>Desc = d, Created = clock rt, Done = False, Id_field = 0\<rparr> (entities c)\<rparr>)"
  by (simp add: AddTask_def Client_Put_def IncompleteKey_def IDKey_def issue_def Let_def
      storable_def)

lemma handler_POST:
  "Method r = ''POST'' \<Longrightarrow> readMsg (Body r) = Inr d \<Longrightarrow>
     client_after (handler rt c r) = snd (AddTask rt c d)"
  by (simp add: handler_def split: prod.split sum.split)

lemma MarkDone_absent:
  "map_of (entities c) n = None \<Longrightarrow> \<exists>e cs. MarkDone c n = (Inl e, c\<lparr>calls := cs\<rparr>)"
  by (auto simp: MarkDone_def RunInTransaction_def Tx_Get_def IDKey_def issue_def Let_def
      split: option.split)

lemma MarkDone_present:
  "map_of (entities c) n = Some t \<Longrightarrow> n \<noteq> 0 \<Longrightarrow> healthy c \<Longrightarrow>
     MarkDone c n =
       (Inr (), c\<lparr>calls := calls c @ [CallBegin, CallTxGet (IDKey ''Task'' n),
                    CallTxPut (IDKey ''Task'' n) (t\<lparr>Done := True\<rparr>), CallCommit],
                  entities := AList.update n (t\<lparr>Done := True\<rparr>) (entities c)\<rparr>)"
  by (simp add: MarkDone_def RunInTransaction_def Tx_Get_def Tx_Put_def IDKey_def issue_def
      Let_def healthy_def apply_mutations_def)

text \<open>The loop of \<open>ListTasks\<close> never indexes out of range when the two lists have one length.\<close>

lemma set_ids_total:
  "i + length keys = length tasks \<Longrightarrow>
     set_ids i keys tasks =
       Inr (take i tasks @ map2 (\<lambda>k t. t\<lparr>Id_field := ID k\<rparr>) keys (drop i tasks))"
proof (induction keys arbitrary: i tasks)
  case Nil
  then show ?case by simp
next
  case (Cons k ks)
  from Cons.prems have lt: "i < length tasks" by simp
  let ?tasks' = "tasks[i := (tasks ! i)\<lparr>Id_field := ID k\<rparr>]"
  have "Suc i + length ks = length ?tasks'" using Cons.prems by simp
  from Cons.IH[OF this]
  have "set_ids (Suc i) ks ?tasks' =
      Inr (take (Suc i) ?tasks' @
           map2 (\<lambda>k t. t\<lparr>Id_field := ID k\<rparr>) ks (drop (Suc i) ?tasks'))" .
  moreover have "take (Suc i) ?tasks' = take i tasks @ [(tasks ! i)\<lparr>Id_field := ID k\<rparr>]"
    using lt by (simp add: take_Suc_conv_app_nth)
  moreover have "drop (Suc i) ?tasks' = drop (Suc i) tasks" by simp
  moreover have "drop i tasks = tasks ! i # drop (Suc i) tasks"
    using lt by (simp add: Cons_nth_drop_Suc)
  ultimately show ?case using lt by simp
qed

lemma set_ids_rows:
  "map2 (\<lambda>k t. t\<lparr>Id_field := ID k\<rparr>) (map (\<lambda>(k, t). IDKey ''Task'' k) rows) (map snd rows)
     = map with_id rows"
  by (induction rows) (auto simp: with_id_def IDKey_def)

lemma ListTasks_ok:
  "fault c CallGetAll = None \<Longrightarrow>
     ListTasks c = (Inr (map with_id (query_created (entities c))), issue CallGetAll c)"
proof -
  assume f: "fault c CallGetAll = None"
  let ?rows = "query_created (entities c)"
  have "set_ids 0 (map (\<lambda>(k, t). IDKey ''Task'' k) ?rows) (map snd ?rows) =
      Inr (map2 (\<lambda>k t. t\<lparr>Id_field := ID k\<rparr>)
             (map (\<lambda>(k, t). IDKey ''Task'' k) ?rows) (map snd ?rows))"
    using set_ids_total[of 0 "map (\<lambda>(k, t). IDKey ''Task'' k) ?rows" "map snd ?rows"] by simp
  also have "map2 (\<lambda>k t. t\<lparr>Id_field := ID k\<rparr>)
             (map (\<lambda>(k, t). IDKey ''Task'' k) ?rows) (map snd ?rows) = map with_id ?rows"
    by (rule set_ids_rows)
  finally show ?thesis using f by (simp add: ListTasks_def Client_GetAll_def Let_def)
qed

lemma ListTasks_Inr:
  assumes "ListTasks c = (Inr ts, c')"
  shows "ts = map with_id (query_created (entities c))"
proof (cases "fault c CallGetAll")
  case None
  then show ?thesis using ListTasks_ok[of c] assms by simp
next
  case (Some e)
  then show ?thesis using assms by (simp add: ListTasks_def Client_GetAll_def Let_def)
qed

subsection \<open>No operation stores an identifier\<close>

lemma no_stored_id_AddTask:
  "no_stored_id c \<Longrightarrow> allocateID c \<noteq> 0 \<Longrightarrow> no_stored_id (snd (AddTask rt c d))"
  by (auto simp: no_stored_id_def AddTask_def Client_Put_def IncompleteKey_def issue_def Let_def
      split: option.splits if_splits dest!: update_set)

lemma no_stored_id_MarkDone:
  "no_stored_id c \<Longrightarrow> no_stored_id (snd (MarkDone c n))"
  by (auto simp: no_stored_id_def MarkDone_def RunInTransaction_def Tx_Get_def Tx_Put_def
      IDKey_def issue_def Let_def apply_mutations_def
      split: option.splits dest!: update_set map_of_SomeD)

lemma no_stored_id_ListTasks:
  "no_stored_id c \<Longrightarrow> no_stored_id (snd (ListTasks c))"
  by (auto simp: no_stored_id_def ListTasks_def Client_GetAll_def issue_def Let_def
      split: option.splits)

lemma no_stored_id_DeleteTask:
  "no_stored_id c \<Longrightarrow> no_stored_id (snd (DeleteTask c n))"
  by (auto simp: no_stored_id_def DeleteTask_def Client_Delete_def issue_def Let_def
      split: option.splits dest!: delete_set)

lemma reachable_no_stored_id: "reachable c \<Longrightarrow> no_stored_id c"
proof (induction rule: reachable.induct)
  case (start c)
  then show ?case by (simp add: no_stored_id_def)
next
  case (remote c a f)
  then show ?case by (simp add: no_stored_id_def)
next
  case (add c rt desc res c')
  then show ?case using no_stored_id_AddTask[of c rt desc] by simp
next
  case (mark c n res' c')
  then show ?case using no_stored_id_MarkDone[of c n] by simp
next
  case (list c res'' c')
  then show ?case using no_stored_id_ListTasks[of c] by simp
next
  case (delete c n res' c')
  then show ?case using no_stored_id_DeleteTask[of c n] by simp
qed

section \<open>The claims\<close>

subsection \<open>The DELETE branch after a store error\<close>

text \<open>
  C1: a DELETE request whose body parses as a 64-bit integer is to be answered with the success
  message "task n marked done" exactly when \<open>MarkDone\<close> succeeds, and with status 500 and the
  error text alone when \<open>MarkDone\<close> returns an error. The branch of the handler that reports the
  error (lines 102-106) does not return, unlike every other error branch, so line 107 runs as
  well. Here the code is evaluated on the body "5" against an empty store: the text parses as 5,
  \<open>MarkDone\<close> returns \<open>ErrNoSuchEntity\<close>, the status is 500, and the body is the error text
  followed by the success message.
\<close>

theorem delete_store_error_also_writes_success:
  "ParseInt ''5'' = Inr 5 \<and>
   fst (MarkDone empty_store 5) = Inl ErrNoSuchEntity \<and>
   statusCode (response (handler go_runtime empty_store (request ''DELETE'' ''5''))) = 500 \<and>
   body (response (handler go_runtime empty_store (request ''DELETE'' ''5''))) =
     ''failed to mark task done: datastore: no such entity'' @ ''task 5 marked done\<newline>''"
  by (simp add: ParseInt_def ParseUint_def digit_value_def show_int_def show_nat.simps
      handler_def readMsg_def CopyN_def MarkDone_def RunInTransaction_def Tx_Get_def
      issue_def IDKey_def fail_with_def Fprintf_def WriteHeader_def new_response_def
      statusCode_def empty_store_def go_runtime_def request_def Let_def)

subsection \<open>The identifier is not a stored attribute\<close>

text \<open>
  C2: the identifier of a task is not stored in the entity. In every store that the operations
  produce from an empty one, each stored record and each record that \<open>AddTask\<close> or \<open>MarkDone\<close>
  wrote has 0 in its field \<open>Id\<close>, while no entity has the identifier 0; and what \<open>ListTasks\<close>
  returns is the stored records of the store, each with the identifier of its key put into
  \<open>Id\<close>.
\<close>

theorem identifier_not_stored:
  assumes "reachable c"
  shows "no_stored_id c \<and>
    (\<forall>ts c'. ListTasks c = (Inr ts, c') \<longrightarrow>
       (\<exists>rows. mset rows = mset (entities c) \<and> ts = map with_id rows))"
  using reachable_no_stored_id[OF assms] mset_query_created ListTasks_Inr by blast

theorem identifier_not_stored_witness:
  "reachable (snd (MarkDone (snd (AddTask go_runtime empty_store ''buy milk'')) 1)) \<and>
   no_stored_id (snd (MarkDone (snd (AddTask go_runtime empty_store ''buy milk'')) 1)) \<and>
   entities (snd (MarkDone (snd (AddTask go_runtime empty_store ''buy milk'')) 1)) =
     [(1, \<lparr>Desc = ''buy milk'', Created = 1546300800, Done = True, Id_field = 0\<rparr>)] \<and>
   fst (ListTasks (snd (MarkDone (snd (AddTask go_runtime empty_store ''buy milk'')) 1))) =
     Inr [\<lparr>Desc = ''buy milk'', Created = 1546300800, Done = True, Id_field = 1\<rparr>]"
proof -
  let ?c1 = "snd (AddTask go_runtime empty_store ''buy milk'')"
  let ?c2 = "snd (MarkDone ?c1 1)"
  have "reachable empty_store"
    by (rule reachable.start) (simp_all add: empty_store_def)
  moreover have "allocateID empty_store \<noteq> 0"
    by (rule allocateID_nonzero)
  ultimately have "reachable ?c1"
    by (rule reachable.add[where rt = go_runtime and desc = "''buy milk''"
          and res = "fst (AddTask go_runtime empty_store ''buy milk'')"]) simp
  then have r: "reachable ?c2"
    by (rule reachable.mark[where n = 1 and res' = "fst (MarkDone ?c1 1)"]) simp
  have e: "entities ?c2 =
      [(1, \<lparr>Desc = ''buy milk'', Created = 1546300800, Done = True, Id_field = 0\<rparr>)]"
    by (simp add: AddTask_def Client_Put_def MarkDone_def RunInTransaction_def Tx_Get_def
        Tx_Put_def apply_mutations_def IncompleteKey_def IDKey_def issue_def allocateID_def
        empty_store_def go_runtime_def next_free_def ValidString_def Let_def)
  have f: "fault ?c2 CallGetAll = None"
    by (simp add: AddTask_def Client_Put_def MarkDone_def RunInTransaction_def Tx_Get_def
        Tx_Put_def apply_mutations_def IncompleteKey_def IDKey_def issue_def allocateID_def
        empty_store_def go_runtime_def next_free_def ValidString_def Let_def)
  have l: "fst (ListTasks ?c2) =
      Inr [\<lparr>Desc = ''buy milk'', Created = 1546300800, Done = True, Id_field = 1\<rparr>]"
    by (simp add: ListTasks_ok[OF f] e query_created_def with_id_def)
  from identifier_not_stored[OF r] r e l show ?thesis by simp
qed

subsection \<open>Marking a task done\<close>

text \<open>
  C3: for a task that is in the store (under an identifier the store can have assigned, so not
  0) and a store that answers, \<open>MarkDone\<close> succeeds; afterwards the task is the same record
  with \<open>Done\<close> true (its description, creation time and stored \<open>Id\<close> are as before), every
  other identifier maps to what it mapped to, and the identifiers in the store are the same.
\<close>

theorem MarkDone_sets_done_only:
  assumes "map_of (entities c) n = Some t" and "n \<noteq> 0" and "healthy c"
  shows "\<exists>c'. MarkDone c n = (Inr (), c') \<and>
     map_of (entities c') n = Some (t\<lparr>Done := True\<rparr>) \<and>
     (\<forall>k. k \<noteq> n \<longrightarrow> map_of (entities c') k = map_of (entities c) k) \<and>
     map fst (entities c') = map fst (entities c)"
proof -
  have "n \<in> fst ` set (entities c)"
    using assms(1) by (force dest: map_of_SomeD)
  then have "map fst (AList.update n (t\<lparr>Done := True\<rparr>) (entities c)) = map fst (entities c)"
    by (simp add: update_keys)
  then show ?thesis
    unfolding MarkDone_present[OF assms] by (simp add: update_conv')
qed

theorem MarkDone_sets_done_only_witness:
  "map_of (entities sample_store) 3 =
     Some \<lparr>Desc = ''call bank'', Created = 50, Done = False, Id_field = 0\<rparr> \<and>
   (3::int) \<noteq> 0 \<and> healthy sample_store \<and>
   (\<exists>c'. MarkDone sample_store 3 = (Inr (), c') \<and>
     map_of (entities c') 3 =
       Some \<lparr>Desc = ''call bank'', Created = 50, Done = True, Id_field = 0\<rparr> \<and>
     (\<forall>k. k \<noteq> 3 \<longrightarrow> map_of (entities c') k = map_of (entities sample_store) k) \<and>
     map fst (entities c') = map fst (entities sample_store))"
proof -
  have m: "map_of (entities sample_store) 3 =
      Some \<lparr>Desc = ''call bank'', Created = 50, Done = False, Id_field = 0\<rparr>"
    by (simp add: sample_store_def empty_store_def)
  have h: "healthy sample_store"
    by (simp add: healthy_def sample_store_def empty_store_def)
  have z: "(3::int) \<noteq> 0" by simp
  from MarkDone_sets_done_only[OF m z h] m h show ?thesis by simp
qed

text \<open>
  C4: for an identifier under which the store has no task, \<open>MarkDone\<close> returns an error and the
  entities of the store are what they were; this holds whatever the store answers.
\<close>

theorem MarkDone_unknown_unchanged:
  assumes "map_of (entities c) n = None"
  shows "\<exists>e c'. MarkDone c n = (Inl e, c') \<and> entities c' = entities c"
proof -
  obtain e cs where "MarkDone c n = (Inl e, c\<lparr>calls := cs\<rparr>)"
    using MarkDone_absent[OF assms] by blast
  then show ?thesis by simp
qed

theorem MarkDone_unknown_unchanged_witness:
  "map_of (entities sample_store) 7 = None \<and>
   (\<exists>e c'. MarkDone sample_store 7 = (Inl e, c') \<and> entities c' = entities sample_store)"
proof -
  have m: "map_of (entities sample_store) 7 = None"
    by (simp add: sample_store_def empty_store_def)
  from MarkDone_unknown_unchanged[OF m] m show ?thesis by simp
qed

text \<open>
  C7: for a task in the store whose \<open>Done\<close> is already true (and a store that answers),
  \<open>MarkDone\<close> succeeds and the entities of the store are exactly what they were.
\<close>

theorem MarkDone_idempotent:
  assumes "map_of (entities c) n = Some t" and "Done t" and "n \<noteq> 0" and "healthy c"
  shows "\<exists>c'. MarkDone c n = (Inr (), c') \<and> entities c' = entities c"
proof -
  have "t\<lparr>Done := True\<rparr> = t" using assms(2) by simp
  then show ?thesis
    unfolding MarkDone_present[OF assms(1,3,4)] by (simp add: update_triv[OF assms(1)])
qed

theorem MarkDone_idempotent_witness:
  "map_of (entities sample_store) 1 =
     Some \<lparr>Desc = ''buy milk'', Created = 20, Done = True, Id_field = 0\<rparr> \<and>
   Done \<lparr>Desc = ''buy milk'', Created = 20, Done = True, Id_field = 0\<rparr> \<and>
   (1::int) \<noteq> 0 \<and> healthy sample_store \<and>
   (\<exists>c'. MarkDone sample_store 1 = (Inr (), c') \<and> entities c' = entities sample_store)"
proof -
  have m: "map_of (entities sample_store) 1 =
      Some \<lparr>Desc = ''buy milk'', Created = 20, Done = True, Id_field = 0\<rparr>"
    by (simp add: sample_store_def empty_store_def)
  have d: "Done \<lparr>Desc = ''buy milk'', Created = 20, Done = True, Id_field = 0\<rparr>" by simp
  have h: "healthy sample_store"
    by (simp add: healthy_def sample_store_def empty_store_def)
  have z: "(1::int) \<noteq> 0" by simp
  from MarkDone_idempotent[OF m d z h] m h show ?thesis by simp
qed

subsection \<open>Listing\<close>

text \<open>
  C5: when the store answers the query, \<open>ListTasks\<close> returns a list that has one task for every
  entity of the store (the rows are the entities in another order), each with the identifier of
  its key in \<open>Id\<close> and otherwise as stored, in non-decreasing order of creation time; the store
  is not changed.
\<close>

theorem ListTasks_all_sorted_with_ids:
  assumes "fault c CallGetAll = None"
  shows "\<exists>rows ts c'. ListTasks c = (Inr ts, c') \<and> mset rows = mset (entities c) \<and>
     ts = map with_id rows \<and> sorted (map Created ts) \<and> entities c' = entities c"
proof -
  have "sorted (map Created (map with_id (query_created (entities c))))"
    using sorted_query_created[of "entities c"] by (simp add: comp_def Created_with_id)
  then show ?thesis
    using ListTasks_ok[OF assms] mset_query_created[of "entities c"] by (auto simp: issue_def)
qed

theorem ListTasks_all_sorted_with_ids_witness:
  "fault sample_store CallGetAll = None \<and>
   fst (ListTasks sample_store) =
     Inr [\<lparr>Desc = ''buy milk'', Created = 20, Done = True, Id_field = 1\<rparr>,
          \<lparr>Desc = ''pay rent'', Created = 50, Done = False, Id_field = 2\<rparr>,
          \<lparr>Desc = ''call bank'', Created = 50, Done = False, Id_field = 3\<rparr>] \<and>
   (\<exists>rows ts c'. ListTasks sample_store = (Inr ts, c') \<and>
      mset rows = mset (entities sample_store) \<and> ts = map with_id rows \<and>
      sorted (map Created ts) \<and> entities c' = entities sample_store)"
proof -
  have f: "fault sample_store CallGetAll = None"
    by (simp add: sample_store_def empty_store_def)
  have l: "fst (ListTasks sample_store) =
     Inr [\<lparr>Desc = ''buy milk'', Created = 20, Done = True, Id_field = 1\<rparr>,
          \<lparr>Desc = ''pay rent'', Created = 50, Done = False, Id_field = 2\<rparr>,
          \<lparr>Desc = ''call bank'', Created = 50, Done = False, Id_field = 3\<rparr>]"
    unfolding ListTasks_ok[OF f]
    by (simp add: query_created_def with_id_def sample_store_def empty_store_def)
  from ListTasks_all_sorted_with_ids[OF f] f l show ?thesis by simp
qed

text \<open>
  C8, as stated for every description, fails: the description may be one that the client
  refuses. The single byte C3 opens a two-byte sequence of UTF-8 and has none after it; on the
  empty store, which answers every call, \<open>AddTask\<close> returns the client's error, and the list
  that \<open>ListTasks\<close> returns afterwards is empty.
\<close>

theorem AddTask_invalid_description_counterexample:
  "healthy empty_store \<and>
   fst (AddTask go_runtime empty_store [CHR 0xC3]) = Inl (ErrInvalidUTF8 [CHR 0xC3]) \<and>
   fst (ListTasks (snd (AddTask go_runtime empty_store [CHR 0xC3]))) = Inr []"
  by (simp add: healthy_def AddTask_def Client_Put_def ValidString_def issue_def
      ListTasks_def Client_GetAll_def query_created_def empty_store_def Let_def)

text \<open>
  C8, amended: for every description that is valid UTF-8 and at most 1500 bytes, and a store
  that answers, \<open>AddTask\<close> returns a key whose identifier is not 0, and \<open>ListTasks\<close> on the store
  that \<open>AddTask\<close> left returns a list that contains the task with the description given, the
  creation time read, \<open>Done\<close> false and the key's identifier in \<open>Id\<close>.
\<close>

theorem AddTask_then_ListTasks:
  assumes "healthy c" and "storable desc"
  shows "\<exists>key c1 ts c2. AddTask rt c desc = (Inr key, c1) \<and> ID key \<noteq> 0 \<and>
     ListTasks c1 = (Inr ts, c2) \<and>
     \<lparr>Desc = desc, Created = clock rt, Done = False, Id_field = ID key\<rparr> \<in> set ts"
proof -
  let ?t = "\<lparr>Desc = desc, Created = clock rt, Done = False, Id_field = 0\<rparr>"
  let ?c1 = "snd (AddTask rt c desc)"
  have a: "AddTask rt c desc = (Inr (IDKey ''Task'' (allocateID c)), ?c1)"
    and e: "entities ?c1 = AList.update (allocateID c) ?t (entities c)"
    and f: "fault ?c1 CallGetAll = None"
    using assms by (simp_all add: AddTask_ok healthy_def)
  have "(allocateID c, ?t) \<in> set (query_created (entities ?c1))"
    unfolding e by (simp add: query_created_def update_mem)
  then have "with_id (allocateID c, ?t) \<in> set (map with_id (query_created (entities ?c1)))"
    by simp
  then have m: "\<lparr>Desc = desc, Created = clock rt, Done = False,
        Id_field = ID (IDKey ''Task'' (allocateID c))\<rparr>
      \<in> set (map with_id (query_created (entities ?c1)))"
    by (simp add: with_id_def IDKey_def)
  have n: "ID (IDKey ''Task'' (allocateID c)) \<noteq> 0"
    using allocateID_nonzero[of c] by (simp add: IDKey_def)
  show ?thesis
    using a n ListTasks_ok[OF f] m by blast
qed

theorem AddTask_then_ListTasks_witness:
  "healthy sample_store \<and> storable ''water plants'' \<and>
   fst (AddTask go_runtime sample_store ''water plants'') = Inr (IDKey ''Task'' 4) \<and>
   (\<exists>key c1 ts c2. AddTask go_runtime sample_store ''water plants'' = (Inr key, c1) \<and>
      ID key \<noteq> 0 \<and> ListTasks c1 = (Inr ts, c2) \<and>
      \<lparr>Desc = ''water plants'', Created = clock go_runtime, Done = False, Id_field = ID key\<rparr>
        \<in> set ts)"
proof -
  have h: "healthy sample_store"
    by (simp add: healthy_def sample_store_def empty_store_def)
  have s: "storable ''water plants''"
    by (simp add: storable_def ValidString_def)
  have i: "allocateID sample_store = 4"
    by (simp add: allocateID_def sample_store_def empty_store_def next_free_def)
  have a: "fst (AddTask go_runtime sample_store ''water plants'') = Inr (IDKey ''Task'' 4)"
    using h s by (simp add: AddTask_ok healthy_def i)
  from AddTask_then_ListTasks[OF h s, of go_runtime] h s a
  show ?thesis by simp
qed

subsection \<open>The handler\<close>

text \<open>
  C6: for a POST request whose body is read to its end, or has at least 256 bytes, reading the
  body is not an error and gives the first \<open>min 256 (length body)\<close> bytes of the body; the
  handler leaves the client as \<open>AddTask\<close> with that description leaves it, and the one call it
  issues is the \<open>Put\<close> of a task with that description.
\<close>

theorem post_description_is_body_prefix:
  assumes "Method r = ''POST''"
    and "failure (Body r) = None \<or> 256 \<le> length (content (Body r))"
  shows "readMsg (Body r) =
       Inr (take (min 256 (length (content (Body r)))) (content (Body r))) \<and>
     client_after (handler rt c r) =
       snd (AddTask rt c (take (min 256 (length (content (Body r)))) (content (Body r)))) \<and>
     calls (client_after (handler rt c r)) =
       calls c @ [CallPut (IncompleteKey ''Task'')
          \<lparr>Desc = take (min 256 (length (content (Body r)))) (content (Body r)),
           Created = clock rt, Done = False, Id_field = 0\<rparr>]"
proof -
  have t: "take (min 256 (length (content (Body r)))) (content (Body r)) =
      take 256 (content (Body r))"
    by (simp add: min_def)
  show ?thesis
    unfolding t using readMsg_complete[OF assms(2)] handler_POST[OF assms(1)]
    by (simp add: AddTask_calls)
qed

theorem post_description_is_body_prefix_witness:
  "Method (request ''POST'' (replicate 300 CHR ''a'')) = ''POST'' \<and>
   (failure (Body (request ''POST'' (replicate 300 CHR ''a''))) = None \<or>
    256 \<le> length (content (Body (request ''POST'' (replicate 300 CHR ''a''))))) \<and>
   readMsg (Body (request ''POST'' (replicate 300 CHR ''a''))) = Inr (replicate 256 CHR ''a'') \<and>
   calls (client_after (handler go_runtime empty_store
       (request ''POST'' (replicate 300 CHR ''a'')))) =
     [CallPut (IncompleteKey ''Task'')
        \<lparr>Desc = replicate 256 CHR ''a'', Created = 1546300800, Done = False, Id_field = 0\<rparr>]"
proof -
  let ?r = "request ''POST'' (replicate 300 CHR ''a'')"
  have m: "Method ?r = ''POST''" by (simp add: request_def)
  have b: "failure (Body ?r) = None \<or> 256 \<le> length (content (Body ?r))"
    by (simp add: request_def)
  have t: "take (min 256 (length (content (Body ?r)))) (content (Body ?r)) =
      replicate 256 CHR ''a''"
    by (simp add: request_def)
  have c: "calls empty_store = []" and k: "clock go_runtime = 1546300800"
    by (simp_all add: empty_store_def go_runtime_def)
  from post_description_is_body_prefix[OF m b, of go_runtime empty_store, unfolded t c k append_Nil] m b
  show ?thesis by blast
qed

text \<open>
  C9: for a DELETE request whose body is read (to its end, or to 256 bytes) and whose first 256
  bytes \<open>ParseInt\<close> rejects, the response has status 400 and the client is exactly what it was:
  no call was issued to the store and no entity changed.
\<close>

theorem delete_unparsable_is_400:
  assumes "Method r = ''DELETE''"
    and "failure (Body r) = None \<or> 256 \<le> length (content (Body r))"
    and "ParseInt (take 256 (content (Body r))) = Inl e"
  shows "statusCode (response (handler rt c r)) = 400 \<and> client_after (handler rt c r) = c"
  using assms readMsg_complete[OF assms(2)]
  by (simp add: handler_def statusCode_def fail_with_def Fprintf_def WriteHeader_def
      new_response_def)

theorem delete_unparsable_is_400_witness:
  "Method (request ''DELETE'' ''abc'') = ''DELETE'' \<and>
   (failure (Body (request ''DELETE'' ''abc'')) = None \<or>
    256 \<le> length (content (Body (request ''DELETE'' ''abc'')))) \<and>
   ParseInt (take 256 (content (Body (request ''DELETE'' ''abc'')))) = Inl (ErrSyntax ''abc'') \<and>
   statusCode (response (handler go_runtime sample_store (request ''DELETE'' ''abc''))) = 400 \<and>
   client_after (handler go_runtime sample_store (request ''DELETE'' ''abc'')) = sample_store"
proof -
  let ?r = "request ''DELETE'' ''abc''"
  have m: "Method ?r = ''DELETE''" by (simp add: request_def)
  have b: "failure (Body ?r) = None \<or> 256 \<le> length (content (Body ?r))"
    by (simp add: request_def)
  have p: "ParseInt (take 256 (content (Body ?r))) = Inl (ErrSyntax ''abc'')"
    by (simp add: request_def ParseInt_def ParseUint_def digit_value_def)
  from delete_unparsable_is_400[OF m b p, of go_runtime sample_store] m b p
  show ?thesis by simp
qed

text \<open>
  C10: for a request whose method is none of GET, POST and DELETE, the response has status
  405 and an empty body, and the client is exactly what it was: no call was issued to the store
  and no entity changed.
\<close>

theorem other_method_is_405:
  assumes "Method r \<noteq> ''GET''" and "Method r \<noteq> ''POST''" and "Method r \<noteq> ''DELETE''"
  shows "statusCode (response (handler rt c r)) = 405 \<and> body (response (handler rt c r)) = [] \<and>
     client_after (handler rt c r) = c"
  using assms by (simp add: handler_def statusCode_def WriteHeader_def new_response_def)

theorem other_method_is_405_witness:
  "Method (request ''PUT'' ''5'') \<noteq> ''GET'' \<and> Method (request ''PUT'' ''5'') \<noteq> ''POST'' \<and>
   Method (request ''PUT'' ''5'') \<noteq> ''DELETE'' \<and>
   statusCode (response (handler go_runtime sample_store (request ''PUT'' ''5''))) = 405 \<and>
   body (response (handler go_runtime sample_store (request ''PUT'' ''5''))) = [] \<and>
   client_after (handler go_runtime sample_store (request ''PUT'' ''5'')) = sample_store"
proof -
  let ?r = "request ''PUT'' ''5''"
  have g: "Method ?r \<noteq> ''GET''" and p: "Method ?r \<noteq> ''POST''" and d: "Method ?r \<noteq> ''DELETE''"
    by (simp_all add: request_def)
  from other_method_is_405[OF g p d, of go_runtime sample_store] g p d
  show ?thesis by simp
qed

end
